theory Spec2Isabelle
  imports Complex_Main "HOL-Library.Sublist"
begin

section \<open>The HLS segment estimator (hls\_estimator.py)\<close>

text \<open>
  The script probes a media file with ffprobe (\<open>get_video_metadata\<close>) and computes from
  the duration and the bit rates how many segments of a target size the file splits into
  (\<open>calculate_segment_duration\<close>).

  Modelling decisions, valid for the whole development:
  \<^item> A Python \<open>float\<close> is modelled as a \<open>real\<close>: finite and exact. Rounding, overflow to
    \<open>inf\<close>, underflow to zero and \<open>nan\<close> are outside the model. A Python \<open>int\<close> is an
    \<open>int\<close>.
  \<^item> An exception that leaves a function is the outcome \<open>Raised\<close>; a returned value is
    \<open>Returned\<close>. Error dictionaries of the script are ordinary returned values.
  \<^item> \<open>print\<close> calls are dropped: no property below is about the console.
\<close>

subsection \<open>Outcomes and exceptions\<close>

datatype py_exception =
  TypeError | ValueError | AttributeError | KeyError | ZeroDivisionError

datatype 'a outcome = Raised py_exception | Returned 'a

text \<open>Python's true division \<open>a / b\<close> on floats: division by zero raises.\<close>

definition py_truediv :: "real \<Rightarrow> real \<Rightarrow> real outcome" where
  "py_truediv a b = (if b = 0 then Raised ZeroDivisionError else Returned (a / b))"

subsection \<open>The data: metadata and estimate dictionaries\<close>

text \<open>
  The dictionary \<open>{"total_duration_sec": d, "stream_bitrates_bps": bs, "error": e}\<close>
  that \<open>get_video_metadata\<close> returns; \<open>error\<close> is \<open>None\<close> or a message.
\<close>

record video_metadata =
  total_duration_sec :: real
  stream_bitrates_bps :: "int list"
  error :: "string option"

text \<open>
  The dictionary that \<open>calculate_segment_duration\<close> returns: either \<open>{"error": msg}\<close>
  alone, or the four numbers together with \<open>"error": None\<close>.
\<close>

datatype segment_estimate =
  Failed string
| Estimated (max_bitrate_mbps: real) (safe_segment_duration_sec: real)
    (total_video_duration_sec: real) (estimated_total_segments: int)


subsection \<open>The estimator: lines 112 to 145 of \<open>calculate_segment_duration\<close>\<close>

text \<open>
  \<open>if metadata.get("error")\<close> tests the truth value of the entry: \<open>None\<close> and the empty
  string both count as no error.
\<close>

definition reported_error :: "video_metadata \<Rightarrow> string option" where
  "reported_error metadata =
     (case error metadata of
        None \<Rightarrow> None
      | Some msg \<Rightarrow> if msg = [] then None else Some msg)"

definition msg_duration_invalid :: string where
  "msg_duration_invalid =
     ''Video duration is zero or invalid. Cannot calculate segment duration.''"

definition msg_no_bitrate :: string where
  "msg_no_bitrate = ''No bitrate data found for the video. Cannot estimate segment size.''"

definition msg_total_bitrate :: string where
  "msg_total_bitrate =
     ''Total bitrate of the video is zero or negative. Cannot calculate segment duration. The file might not be a video or audio file, or lacks bitrate information.''"

definition msg_segment_duration :: string where
  "msg_segment_duration =
     ''Calculated segment duration is zero or negative. Check bitrate and target size.''"

text \<open>
  The body of \<open>calculate_segment_duration\<close> after the metadata has been obtained
  (line 110), as a function of the metadata and of \<open>target_segment_size_mb\<close>.
  Each of the three divisions is \<open>py_truediv\<close>, so that a zero divisor would show as
  \<open>Raised ZeroDivisionError\<close>; \<open>math.ceil\<close> is the ceiling.
\<close>

definition estimate_from_metadata :: "video_metadata \<Rightarrow> real \<Rightarrow> segment_estimate outcome" where
  "estimate_from_metadata metadata target_segment_size_mb =
     (case reported_error metadata of
        Some msg \<Rightarrow> Returned (Failed (''Failed to get video metadata: '' @ msg))
      | None \<Rightarrow>
          if total_duration_sec metadata \<le> 0 then Returned (Failed msg_duration_invalid)
          else if stream_bitrates_bps metadata = [] then Returned (Failed msg_no_bitrate)
          else
            let total_bitrate_bps = sum_list (stream_bitrates_bps metadata) in
            if total_bitrate_bps \<le> 0 then Returned (Failed msg_total_bitrate)
            else
              (case py_truediv (of_int total_bitrate_bps) 1000000 of
                 Raised e \<Rightarrow> Raised e
               | Returned total_bitrate_mbps \<Rightarrow>
                   let target_segment_size_mbits = target_segment_size_mb * 8 in
                   (case py_truediv target_segment_size_mbits total_bitrate_mbps of
                      Raised e \<Rightarrow> Raised e
                    | Returned safe_segment_duration \<Rightarrow>
                        if safe_segment_duration \<le> 0 then Returned (Failed msg_segment_duration)
                        else
                          (case py_truediv (total_duration_sec metadata) safe_segment_duration of
                             Raised e \<Rightarrow> Raised e
                           | Returned ratio \<Rightarrow>
                               Returned (Estimated total_bitrate_mbps safe_segment_duration
                                 (total_duration_sec metadata) \<lceil>ratio\<rceil>)))))"

subsection \<open>Python values and the built-ins the adapter applies to them\<close>

text \<open>
  What \<open>json.loads\<close> returns: \<open>None\<close>, a bool, an int, a float, a string, a list or a
  dictionary with string keys. A dictionary is the list of its entries, keys distinct,
  read with \<open>map_of\<close>.
\<close>

datatype pyval =
  PNone | PBool bool | PInt int | PFloat real | PStr string
| PList "pyval list" | PDict "(string \<times> pyval) list"

text \<open>
  \<open>int(s)\<close> and \<open>float(s)\<close> on a string \<open>s\<close> are parsers of the Python runtime, not code
  of the script: they are parameters of the model. \<open>None\<close> is \<open>ValueError\<close>.
\<close>

record builtins =
  str_to_int :: "string \<Rightarrow> int option"
  str_to_float :: "string \<Rightarrow> real option"

definition and_then :: "'a outcome \<Rightarrow> ('a \<Rightarrow> 'b outcome) \<Rightarrow> 'b outcome" where
  "and_then r f = (case r of Raised e \<Rightarrow> Raised e | Returned x \<Rightarrow> f x)"

text \<open>\<open>int(v)\<close>: a float is truncated towards zero, \<open>None\<close>, lists and dictionaries raise \<open>TypeError\<close>.\<close>

fun py_int :: "builtins \<Rightarrow> pyval \<Rightarrow> int outcome" where
  "py_int B PNone = Raised TypeError"
| "py_int B (PBool b) = Returned (if b then 1 else 0)"
| "py_int B (PInt i) = Returned i"
| "py_int B (PFloat r) = Returned (if 0 \<le> r then \<lfloor>r\<rfloor> else \<lceil>r\<rceil>)"
| "py_int B (PStr s) =
     (case str_to_int B s of None \<Rightarrow> Raised ValueError | Some i \<Rightarrow> Returned i)"
| "py_int B (PList xs) = Raised TypeError"
| "py_int B (PDict kvs) = Raised TypeError"

text \<open>\<open>float(v)\<close>.\<close>

fun py_float :: "builtins \<Rightarrow> pyval \<Rightarrow> real outcome" where
  "py_float B PNone = Raised TypeError"
| "py_float B (PBool b) = Returned (if b then 1 else 0)"
| "py_float B (PInt i) = Returned (of_int i)"
| "py_float B (PFloat r) = Returned r"
| "py_float B (PStr s) =
     (case str_to_float B s of None \<Rightarrow> Raised ValueError | Some r \<Rightarrow> Returned r)"
| "py_float B (PList xs) = Raised TypeError"
| "py_float B (PDict kvs) = Raised TypeError"

text \<open>
  \<open>key in v\<close> for a string \<open>key\<close>: a key of a dictionary, an element of a list, a
  substring of a string; \<open>TypeError\<close> for the values that are no containers.
\<close>

fun py_contains :: "string \<Rightarrow> pyval \<Rightarrow> bool outcome" where
  "py_contains key (PDict kvs) = Returned (map_of kvs key \<noteq> None)"
| "py_contains key (PList xs) = Returned (PStr key \<in> set xs)"
| "py_contains key (PStr s) = Returned (sublist key s)"
| "py_contains key v = Raised TypeError"

text \<open>\<open>v[key]\<close> for a string \<open>key\<close>: only a dictionary can be indexed by a string.\<close>

fun py_getitem :: "pyval \<Rightarrow> string \<Rightarrow> pyval outcome" where
  "py_getitem (PDict kvs) key =
     (case map_of kvs key of None \<Rightarrow> Raised KeyError | Some x \<Rightarrow> Returned x)"
| "py_getitem v key = Raised TypeError"

text \<open>\<open>v.get(key, default)\<close>: a method of dictionaries only.\<close>

fun py_get :: "pyval \<Rightarrow> string \<Rightarrow> pyval \<Rightarrow> pyval outcome" where
  "py_get (PDict kvs) key dflt =
     Returned (case map_of kvs key of None \<Rightarrow> dflt | Some x \<Rightarrow> x)"
| "py_get v key dflt = Raised AttributeError"

text \<open>
  \<open>for x in v\<close>: the elements of a list, the keys of a dictionary, the characters of a
  string; the other values are not iterable.
\<close>

fun py_iter :: "pyval \<Rightarrow> pyval list outcome" where
  "py_iter (PList xs) = Returned xs"
| "py_iter (PDict kvs) = Returned (map (\<lambda>kv. PStr (fst kv)) kvs)"
| "py_iter (PStr s) = Returned (map (\<lambda>c. PStr [c]) s)"
| "py_iter v = Raised TypeError"

text \<open>The truth value of \<open>v\<close> in \<open>if v:\<close>.\<close>

fun py_truthy :: "pyval \<Rightarrow> bool" where
  "py_truthy PNone = False"
| "py_truthy (PBool b) = b"
| "py_truthy (PInt i) = (i \<noteq> 0)"
| "py_truthy (PFloat r) = (r \<noteq> 0)"
| "py_truthy (PStr s) = (s \<noteq> [])"
| "py_truthy (PList xs) = (xs \<noteq> [])"
| "py_truthy (PDict kvs) = (kvs \<noteq> [])"

subsection \<open>The probe adapter: \<open>get_video_metadata\<close>\<close>

text \<open>Every error return of the adapter has this shape: duration 0, no bit rates, a message.\<close>

definition error_metadata :: "string \<Rightarrow> video_metadata" where
  "error_metadata msg = \<lparr>total_duration_sec = 0, stream_bitrates_bps = [], error = Some msg\<rparr>"

text \<open>
  Lines 55 and 56: \<open>'format' in metadata and 'duration' in metadata['format']\<close>, then
  \<open>float(metadata['format']['duration'])\<close>. The result \<open>None\<close> is the \<open>else\<close> branch of
  line 57.
\<close>

definition probe_duration :: "builtins \<Rightarrow> pyval \<Rightarrow> real option outcome" where
  "probe_duration B metadata =
     and_then (py_contains ''format'' metadata) (\<lambda>has_format.
       if \<not> has_format then Returned None
       else
         and_then (py_getitem metadata ''format'') (\<lambda>fmt.
         and_then (py_contains ''duration'' fmt) (\<lambda>has_duration.
           if \<not> has_duration then Returned None
           else
             and_then (py_getitem metadata ''format'') (\<lambda>fmt'.
             and_then (py_getitem fmt' ''duration'') (\<lambda>duration.
             and_then (py_float B duration) (\<lambda>d. Returned (Some d)))))))"

text \<open>
  Lines 63 to 69, one stream: a missing entry and \<open>'N/A'\<close> read as \<open>'0'\<close>; of the
  exceptions of \<open>int\<close> only \<open>ValueError\<close> is caught.
\<close>

definition stream_bit_rate :: "builtins \<Rightarrow> pyval \<Rightarrow> int outcome" where
  "stream_bit_rate B stream =
     and_then (py_get stream ''bit_rate'' (PStr ''0'')) (\<lambda>bit_rate.
       (case py_int B (if bit_rate = PStr ''N/A'' then PStr ''0'' else bit_rate) of
          Raised ValueError \<Rightarrow> Returned 0
        | Raised e \<Rightarrow> Raised e
        | Returned i \<Rightarrow> Returned i))"

text \<open>The loop of line 62, appending to \<open>stream_bitrates_bps\<close>.\<close>

fun collect_stream_bitrates :: "builtins \<Rightarrow> pyval list \<Rightarrow> int list \<Rightarrow> int list outcome" where
  "collect_stream_bitrates B [] acc = Returned acc"
| "collect_stream_bitrates B (stream # rest) acc =
     (case stream_bit_rate B stream of
        Raised e \<Rightarrow> Raised e
      | Returned b \<Rightarrow> collect_stream_bitrates B rest (acc @ [b]))"

text \<open>Lines 60 to 69.\<close>

definition per_stream_bitrates :: "builtins \<Rightarrow> pyval \<Rightarrow> int list outcome" where
  "per_stream_bitrates B metadata =
     and_then (py_contains ''streams'' metadata) (\<lambda>has_streams.
       if has_streams then
         and_then (py_getitem metadata ''streams'') (\<lambda>streams.
         and_then (py_iter streams) (\<lambda>xs. collect_stream_bitrates B xs []))
       else Returned [])"

text \<open>
  Lines 72 to 80, entered with an empty list: \<open>metadata.get('format', {}).get('bit_rate')\<close>,
  used when it is true as a condition and \<open>int\<close> accepts it.
\<close>

definition format_bit_rate_fallback :: "builtins \<Rightarrow> pyval \<Rightarrow> int list outcome" where
  "format_bit_rate_fallback B metadata =
     and_then (py_get metadata ''format'' (PDict [])) (\<lambda>fmt.
     and_then (py_get fmt ''bit_rate'' PNone) (\<lambda>format_bit_rate.
       if py_truthy format_bit_rate then
         (case py_int B format_bit_rate of
            Raised ValueError \<Rightarrow> Returned []
          | Raised e \<Rightarrow> Raised e
          | Returned i \<Rightarrow> Returned [i])
       else Returned []))"

text \<open>Lines 54 to 88: what the adapter makes of the parsed report.\<close>

definition read_probe_report :: "builtins \<Rightarrow> pyval \<Rightarrow> video_metadata outcome" where
  "read_probe_report B metadata =
     and_then (probe_duration B metadata) (\<lambda>duration.
       case duration of
         None \<Rightarrow> Returned (error_metadata ''Could not determine video duration.'')
       | Some d \<Rightarrow>
           and_then (per_stream_bitrates B metadata) (\<lambda>bitrates.
           and_then
             (if bitrates = [] \<and> d > 0 then format_bit_rate_fallback B metadata
              else Returned bitrates) (\<lambda>bitrates'.
             Returned \<lparr>total_duration_sec = d, stream_bitrates_bps = bitrates',
               error = None\<rparr>)))"

text \<open>
  What the world answers to one call: whether the path exists, how the ffprobe process
  ended, and how \<open>install_ffmpeg()\<close> ends, which only runs commands and prints.
  \<open>FfprobeMissing\<close> is \<open>FileNotFoundError\<close>, \<open>FfprobeFailed stderr\<close> is
  \<open>CalledProcessError\<close>, \<open>FfprobeBadJson\<close> is an exit status 0 with an output on which
  \<open>json.loads\<close> raises \<open>JSONDecodeError\<close>, \<open>FfprobeJson v\<close> is an exit status 0 with an
  output that \<open>json.loads\<close> reads as \<open>v\<close>.
\<close>

datatype ffprobe_result =
  FfprobeMissing | FfprobeFailed string | FfprobeBadJson | FfprobeJson pyval

record world =
  path_exists :: bool
  ffprobe :: ffprobe_result
  install_ffmpeg :: "bool outcome"

text \<open>Lines 90 to 95: the message for a failed ffprobe run.\<close>

definition command_failed_message :: "string \<Rightarrow> string \<Rightarrow> string" where
  "command_failed_message video_file_path stderr =
     (if sublist ''No such file or directory'' stderr then
        ''ffprobe error: Video file not found at '' @ video_file_path
          @ '' or ffprobe itself is missing.''
      else if sublist ''Invalid data found when processing input'' stderr then
        ''ffprobe error: Invalid data for '' @ video_file_path
          @ ''. File might be corrupted/not media.''
      else ''ffprobe command failed: '' @ stderr)"

text \<open>
  The adapter. The three \<open>except\<close> clauses catch \<open>CalledProcessError\<close>,
  \<open>JSONDecodeError\<close> and \<open>FileNotFoundError\<close>; nothing between lines 54 and 88 raises
  one of these, so an exception of \<open>read_probe_report\<close> leaves the function.
\<close>

definition get_video_metadata :: "builtins \<Rightarrow> world \<Rightarrow> string \<Rightarrow> video_metadata outcome" where
  "get_video_metadata B w video_file_path =
     (if \<not> path_exists w then
        Returned (error_metadata (''File not found: '' @ video_file_path))
      else
        (case ffprobe w of
           FfprobeJson metadata \<Rightarrow> read_probe_report B metadata
         | FfprobeFailed stderr \<Rightarrow>
             Returned (error_metadata (command_failed_message video_file_path stderr))
         | FfprobeBadJson \<Rightarrow>
             Returned (error_metadata ''Failed to parse ffprobe JSON output.'')
         | FfprobeMissing \<Rightarrow>
             and_then (install_ffmpeg w) (\<lambda>installed.
               Returned (error_metadata
                 ''ffprobe command not found. Ensure FFmpeg is installed and in PATH.''))))"

text \<open>The whole of \<open>calculate_segment_duration\<close>: line 110, then the estimator.\<close>

definition calculate_segment_duration ::
  "builtins \<Rightarrow> world \<Rightarrow> string \<Rightarrow> real \<Rightarrow> segment_estimate outcome" where
  "calculate_segment_duration B w video_file_path target_segment_size_mb =
     and_then (get_video_metadata B w video_file_path) (\<lambda>metadata.
       estimate_from_metadata metadata target_segment_size_mb)"

subsection \<open>A concrete pair of parsers\<close>

text \<open>
  Plain decimal numerals: an optional sign, digits, and for \<open>float\<close> an optional point
  followed by digits. On these strings Python's \<open>int\<close> and \<open>float\<close> give the same
  numbers; the examples below use no other strings that parse.
\<close>

definition digit_value :: "char \<Rightarrow> nat option" where
  "digit_value c = map_of (zip ''0123456789'' [0, 1, 2, 3, 4, 5, 6, 7, 8, 9]) c"

fun digits_value :: "string \<Rightarrow> nat \<Rightarrow> nat option" where
  "digits_value [] acc = Some acc"
| "digits_value (c # cs) acc =
     (case digit_value c of None \<Rightarrow> None | Some d \<Rightarrow> digits_value cs (10 * acc + d))"

definition decimal_nat :: "string \<Rightarrow> nat option" where
  "decimal_nat s = (if s = [] then None else digits_value s 0)"

definition unsigned_decimal :: "string \<Rightarrow> real option" where
  "unsigned_decimal s =
     (let whole = takeWhile (\<lambda>c. c \<noteq> CHR ''.'') s;
          rest = dropWhile (\<lambda>c. c \<noteq> CHR ''.'') s
      in case decimal_nat whole of
           None \<Rightarrow> None
         | Some n \<Rightarrow>
             if rest = [] then Some (of_nat n)
             else
               (case decimal_nat (tl rest) of
                  None \<Rightarrow> None
                | Some f \<Rightarrow> Some (of_nat n + of_nat f / 10 ^ length (tl rest))))"

definition signed :: "(string \<Rightarrow> 'a option) \<Rightarrow> ('a \<Rightarrow> 'a) \<Rightarrow> string \<Rightarrow> 'a option" where
  "signed parse negate s =
     (case s of
        [] \<Rightarrow> None
      | c # cs \<Rightarrow>
          if c = CHR ''-'' then map_option negate (parse cs)
          else if c = CHR ''+'' then parse cs
          else parse s)"

definition decimal_builtins :: builtins where
  "decimal_builtins =
     \<lparr>str_to_int = signed (\<lambda>s. map_option int (decimal_nat s)) uminus,
      str_to_float = signed unsigned_decimal uminus\<rparr>"

section \<open>Properties of the estimator\<close>

subsection \<open>Auxiliary facts\<close>






subsection \<open>The formula\<close>



subsection \<open>The guards\<close>

text \<open>
  Claim C3. The guards fire in a fixed order: a metadata error first, whatever the other
  fields are; then a non-positive duration, whatever the bit rates are; then an empty bit
  rate list; then a non-positive sum. In particular a duration of 0 gives the duration
  error for every bit rate list, and that message is neither of the bit rate messages.
\<close>

theorem guard_order:
  "(error md = Some msg \<and> msg \<noteq> [] \<longrightarrow>
      estimate_from_metadata md t = Returned (Failed (''Failed to get video metadata: '' @ msg)))
   \<and> (error md = None \<and> total_duration_sec md \<le> 0 \<longrightarrow>
      estimate_from_metadata md t = Returned (Failed msg_duration_invalid))
   \<and> (error md = None \<and> total_duration_sec md = 0 \<longrightarrow>
      estimate_from_metadata md t = Returned (Failed msg_duration_invalid))
   \<and> (error md = None \<and> 0 < total_duration_sec md \<and> stream_bitrates_bps md = [] \<longrightarrow>
      estimate_from_metadata md t = Returned (Failed msg_no_bitrate))
   \<and> (error md = None \<and> 0 < total_duration_sec md \<and> stream_bitrates_bps md \<noteq> []
        \<and> sum_list (stream_bitrates_bps md) \<le> 0 \<longrightarrow>
      estimate_from_metadata md t = Returned (Failed msg_total_bitrate))
   \<and> msg_duration_invalid \<noteq> msg_no_bitrate \<and> msg_duration_invalid \<noteq> msg_total_bitrate"
  by (simp add: estimate_from_metadata_def reported_error_def Let_def
      msg_duration_invalid_def msg_no_bitrate_def msg_total_bitrate_def)

text \<open>One input for each guard; the first two carry values that a later guard would reject.\<close>

theorem guard_order_witness:
  "estimate_from_metadata
     \<lparr>total_duration_sec = 0, stream_bitrates_bps = [], error = Some ''boom''\<rparr> 22
     = Returned (Failed ''Failed to get video metadata: boom'')
   \<and> estimate_from_metadata
     \<lparr>total_duration_sec = 0, stream_bitrates_bps = [], error = None\<rparr> 22
     = Returned (Failed msg_duration_invalid)
   \<and> estimate_from_metadata
     \<lparr>total_duration_sec = 0, stream_bitrates_bps = [5000000], error = None\<rparr> 22
     = Returned (Failed msg_duration_invalid)
   \<and> estimate_from_metadata
     \<lparr>total_duration_sec = 100, stream_bitrates_bps = [], error = None\<rparr> 22
     = Returned (Failed msg_no_bitrate)
   \<and> estimate_from_metadata
     \<lparr>total_duration_sec = 100, stream_bitrates_bps = [0, 0], error = None\<rparr> 22
     = Returned (Failed msg_total_bitrate)"
  using
    guard_order [of "\<lparr>total_duration_sec = 0, stream_bitrates_bps = [], error = Some ''boom''\<rparr>"
      "''boom''" 22]
    guard_order [of "\<lparr>total_duration_sec = 0, stream_bitrates_bps = [], error = None\<rparr>"
      "''boom''" 22]
    guard_order [of "\<lparr>total_duration_sec = 0, stream_bitrates_bps = [5000000], error = None\<rparr>"
      "''boom''" 22]
    guard_order [of "\<lparr>total_duration_sec = 100, stream_bitrates_bps = [], error = None\<rparr>"
      "''boom''" 22]
    guard_order [of "\<lparr>total_duration_sec = 100, stream_bitrates_bps = [0, 0], error = None\<rparr>"
      "''boom''" 22]
  by simp

subsection \<open>Scenario B\<close>

text \<open>
  Claim C5. For a duration of 3600 seconds, the bit rate list [5000000], no error and a
  target of 22 megabytes the estimator succeeds with a segment duration of
  176/5 = 35.2 seconds and 103 segments.
\<close>

theorem scenario_b:
  "estimate_from_metadata
     \<lparr>total_duration_sec = 3600, stream_bitrates_bps = [5000000], error = None\<rparr> 22
     = Returned (Estimated 5 (176 / 5) 3600 103)
   \<and> (176 / 5 :: real) = 35.2"
  by (simp add: estimate_from_metadata_def reported_error_def py_truediv_def)

subsection \<open>The target size\<close>







section \<open>Properties of the probe adapter\<close>

subsection \<open>Auxiliary facts\<close>

lemma read_probe_report_shape:
  assumes "read_probe_report B j = Returned md"
  shows "md = error_metadata ''Could not determine video duration.'' \<or> error md = None"
  using assms
  by (auto simp: read_probe_report_def and_then_def split: outcome.splits option.splits)

lemma command_failed_message_nonempty: "command_failed_message p e \<noteq> []"
  by (simp add: command_failed_message_def)

lemma get_video_metadata_error_shape:
  assumes "get_video_metadata B w p = Returned md" and "error md = Some msg"
  shows "md = error_metadata msg \<and> msg \<noteq> []"
proof (cases "path_exists w")
  case False
  with assms show ?thesis by (auto simp: get_video_metadata_def error_metadata_def)
next
  case True
  show ?thesis
  proof (cases "ffprobe w")
    case FfprobeMissing
    with True assms show ?thesis
      by (auto simp: get_video_metadata_def error_metadata_def and_then_def split: outcome.splits)
  next
    case (FfprobeFailed e)
    with True assms show ?thesis
      by (auto simp: get_video_metadata_def error_metadata_def command_failed_message_nonempty)
  next
    case FfprobeBadJson
    with True assms show ?thesis
      by (auto simp: get_video_metadata_def error_metadata_def)
  next
    case (FfprobeJson j)
    with True assms have "read_probe_report B j = Returned md"
      by (simp add: get_video_metadata_def)
    from read_probe_report_shape [OF this] assms(2) show ?thesis
      by (auto simp: error_metadata_def)
  qed
qed

subsection \<open>Propagation of a metadata error\<close>

text \<open>
  Claim C4. When the \<open>error\<close> entry of the metadata is set, \<open>calculate_segment_duration\<close>
  returns the error "Failed to get video metadata: " followed by that message, whatever
  the numeric entries are. The first part is about the estimator on arbitrary metadata
  whose message is not empty (the test is \<open>if metadata.get("error")\<close>); the second part is
  about the whole function, where the metadata comes from the adapter, whose messages are
  never empty.
\<close>

theorem metadata_error_propagates:
  "(error md = Some msg \<and> msg \<noteq> [] \<longrightarrow>
      estimate_from_metadata md t
        = Returned (Failed (''Failed to get video metadata: '' @ msg)))
   \<and> (get_video_metadata B w p = Returned md' \<and> error md' = Some msg' \<longrightarrow>
      calculate_segment_duration B w p t
        = Returned (Failed (''Failed to get video metadata: '' @ msg')))"
proof (intro conjI impI)
  assume "error md = Some msg \<and> msg \<noteq> []"
  then show "estimate_from_metadata md t
        = Returned (Failed (''Failed to get video metadata: '' @ msg))"
    by (simp add: estimate_from_metadata_def reported_error_def)
next
  assume a: "get_video_metadata B w p = Returned md' \<and> error md' = Some msg'"
  then have "msg' \<noteq> []" using get_video_metadata_error_shape by blast
  with a show "calculate_segment_duration B w p t
        = Returned (Failed (''Failed to get video metadata: '' @ msg'))"
    by (simp add: calculate_segment_duration_def and_then_def estimate_from_metadata_def
        reported_error_def)
qed

theorem metadata_error_propagates_witness:
  "estimate_from_metadata
     \<lparr>total_duration_sec = 3600, stream_bitrates_bps = [5000000], error = Some ''boom''\<rparr> 22
     = Returned (Failed ''Failed to get video metadata: boom'')
   \<and> calculate_segment_duration decimal_builtins
       \<lparr>path_exists = False, ffprobe = FfprobeMissing, install_ffmpeg = Returned True\<rparr>
       ''a.mp4'' 22
     = Returned (Failed ''Failed to get video metadata: File not found: a.mp4'')"
  using metadata_error_propagates
    [where md = "\<lparr>total_duration_sec = 3600, stream_bitrates_bps = [5000000],
                   error = Some ''boom''\<rparr>"
       and msg = "''boom''" and t = 22 and B = decimal_builtins
       and w = "\<lparr>path_exists = False, ffprobe = FfprobeMissing,
                   install_ffmpeg = Returned True\<rparr>"
       and p = "''a.mp4''" and md' = "error_metadata ''File not found: a.mp4''"
       and msg' = "''File not found: a.mp4''"]
  by (simp add: get_video_metadata_def error_metadata_def)

subsection \<open>Exceptions that leave the adapter\<close>

text \<open>
  Claim C1. For every input, malformed probe output included, the adapter returns
  metadata with \<open>error\<close> set on failure and lets no exception escape. The code does not
  do this: \<open>int(bit_rate)\<close> is guarded by \<open>except ValueError\<close>, but
  \<open>float(metadata['format']['duration'])\<close> is not, and none of the three \<open>except\<close>
  clauses of the function catches \<open>ValueError\<close>. For an existing file whose report
  carries the duration \<open>"N/A"\<close> the call ends in \<open>ValueError\<close>.
\<close>

theorem unparsable_duration_escapes:
  "get_video_metadata decimal_builtins
     \<lparr>path_exists = True,
        ffprobe = FfprobeJson (PDict
          [(''streams'', PList []),
           (''format'', PDict [(''filename'', PStr ''video.mp4''),
                               (''duration'', PStr ''N/A'')])]),
        install_ffmpeg = Returned True\<rparr>
     ''video.mp4''
   = Raised ValueError"
  by (simp add: get_video_metadata_def read_probe_report_def probe_duration_def and_then_def
      decimal_builtins_def signed_def unsigned_decimal_def decimal_nat_def digit_value_def)

subsection \<open>Error and placeholders\<close>

text \<open>
  Claim C7, as amended. Metadata returned by the adapter with \<open>error\<close> set has the
  placeholders in its other entries: duration 0 and no bit rates. (The converse is not
  promised.)
\<close>

theorem error_implies_placeholders:
  assumes "get_video_metadata B w p = Returned md" and "error md \<noteq> None"
  shows "total_duration_sec md = 0 \<and> stream_bitrates_bps md = []"
proof -
  from assms(2) obtain msg where "error md = Some msg" by auto
  from get_video_metadata_error_shape [OF assms(1) this]
  show ?thesis by (simp add: error_metadata_def)
qed

theorem error_implies_placeholders_witness:
  "get_video_metadata decimal_builtins
     \<lparr>path_exists = True, ffprobe = FfprobeBadJson, install_ffmpeg = Returned True\<rparr>
     ''video.mp4''
   = Returned \<lparr>total_duration_sec = 0, stream_bitrates_bps = [],
        error = Some ''Failed to parse ffprobe JSON output.''\<rparr>
   \<and> total_duration_sec \<lparr>total_duration_sec = 0, stream_bitrates_bps = [],
        error = Some ''Failed to parse ffprobe JSON output.''\<rparr> = 0
   \<and> stream_bitrates_bps \<lparr>total_duration_sec = (0::real), stream_bitrates_bps = [],
        error = Some ''Failed to parse ffprobe JSON output.''\<rparr> = []"
  using error_implies_placeholders
    [of decimal_builtins
      "\<lparr>path_exists = True, ffprobe = FfprobeBadJson, install_ffmpeg = Returned True\<rparr>"
      "''video.mp4''"
      "\<lparr>total_duration_sec = 0, stream_bitrates_bps = [],
        error = Some ''Failed to parse ffprobe JSON output.''\<rparr>"]
  by (simp add: get_video_metadata_def error_metadata_def)

text \<open>
  Claim C7 as stated, with the equivalence, fails: a report with duration
  \<open>"0.000000"\<close> and no streams is returned as duration 0 and no bit rates with
  \<open>error = None\<close>. Lines 82 to 86 leave this case to \<open>calculate_segment_duration\<close>.
\<close>

theorem placeholders_without_error:
  "get_video_metadata decimal_builtins
     \<lparr>path_exists = True,
        ffprobe = FfprobeJson (PDict
          [(''streams'', PList []),
           (''format'', PDict [(''duration'', PStr ''0.000000'')])]),
        install_ffmpeg = Returned True\<rparr>
     ''video.mp4''
   = Returned \<lparr>total_duration_sec = 0, stream_bitrates_bps = [], error = None\<rparr>
   \<and> \<not> (error \<lparr>total_duration_sec = 0, stream_bitrates_bps = [], error = None\<rparr> \<noteq> None
          \<longleftrightarrow> total_duration_sec
                \<lparr>total_duration_sec = 0, stream_bitrates_bps = [], error = None\<rparr> = 0
              \<and> stream_bitrates_bps
                \<lparr>total_duration_sec = (0::real), stream_bitrates_bps = [], error = None\<rparr> = [])"
  by (simp add: get_video_metadata_def read_probe_report_def probe_duration_def
      per_stream_bitrates_def and_then_def
      decimal_builtins_def signed_def unsigned_decimal_def decimal_nat_def digit_value_def)

subsection \<open>The container-level bit rate\<close>

text \<open>
  Claim C9, as amended. When the probe succeeds with a duration greater than 0, the
  per-stream collection yields the empty list, and the \<open>bit_rate\<close> entry of \<open>format\<close> is
  present, true as a condition (\<open>if format_bit_rate:\<close>) and accepted by \<open>int\<close>, the
  returned \<open>stream_bitrates_bps\<close> is the one-element list of that integer.
\<close>

theorem format_bit_rate_fallback_used:
  assumes "path_exists w" and "ffprobe w = FfprobeJson (PDict report)"
    and "map_of report ''format'' = Some (PDict fmt)"
    and "map_of fmt ''duration'' = Some dv" and "py_float B dv = Returned d" and "0 < d"
    and "per_stream_bitrates B (PDict report) = Returned []"
    and "map_of fmt ''bit_rate'' = Some v" and "py_truthy v" and "py_int B v = Returned n"
  shows "get_video_metadata B w p
     = Returned \<lparr>total_duration_sec = d, stream_bitrates_bps = [n], error = None\<rparr>"
  using assms
  by (simp add: get_video_metadata_def read_probe_report_def probe_duration_def
      format_bit_rate_fallback_def and_then_def)


theorem format_bit_rate_fallback_used_witness:
  "get_video_metadata decimal_builtins
     \<lparr>path_exists = True,
        ffprobe = FfprobeJson (PDict
          [(''streams'', PList []),
           (''format'', PDict [(''duration'', PStr ''3600.000000''),
                               (''bit_rate'', PStr ''5000000'')])]),
        install_ffmpeg = Returned True\<rparr>
     ''video.mp4''
   = Returned \<lparr>total_duration_sec = 3600, stream_bitrates_bps = [5000000], error = None\<rparr>"
  using format_bit_rate_fallback_used
    [where B = decimal_builtins
       and w = "\<lparr>path_exists = True,
          ffprobe = FfprobeJson (PDict
            [(''streams'', PList []),
             (''format'', PDict [(''duration'', PStr ''3600.000000''),
                                 (''bit_rate'', PStr ''5000000'')])]),
          install_ffmpeg = Returned True\<rparr>"
       and report = "[(''streams'', PList []),
             (''format'', PDict [(''duration'', PStr ''3600.000000''),
                                 (''bit_rate'', PStr ''5000000'')])]"
       and fmt = "[(''duration'', PStr ''3600.000000''), (''bit_rate'', PStr ''5000000'')]"
       and dv = "PStr ''3600.000000''" and d = 3600
       and v = "PStr ''5000000''" and n = 5000000 and p = "''video.mp4''"]
  by (simp add: per_stream_bitrates_def and_then_def
      decimal_builtins_def signed_def unsigned_decimal_def decimal_nat_def digit_value_def)

text \<open>
  Claim C9 as stated, for every bit rate that is present and converts to an integer,
  fails: the number 0 is present and \<open>int(0)\<close> is 0, but 0 is false as a condition, so
  the list stays empty instead of becoming \<open>[0]\<close>.
\<close>

theorem zero_format_bit_rate_ignored:
  "per_stream_bitrates decimal_builtins
     (PDict [(''streams'', PList []),
             (''format'', PDict [(''duration'', PStr ''10.000000''), (''bit_rate'', PInt 0)])])
   = Returned []
   \<and> py_int decimal_builtins (PInt 0) = Returned 0
   \<and> get_video_metadata decimal_builtins
     \<lparr>path_exists = True,
        ffprobe = FfprobeJson (PDict
          [(''streams'', PList []),
           (''format'', PDict [(''duration'', PStr ''10.000000''), (''bit_rate'', PInt 0)])]),
        install_ffmpeg = Returned True\<rparr>
     ''video.mp4''
   = Returned \<lparr>total_duration_sec = 10, stream_bitrates_bps = [], error = None\<rparr>
   \<and> stream_bitrates_bps
       \<lparr>total_duration_sec = (10::real), stream_bitrates_bps = [], error = None\<rparr> \<noteq> [0]"
  by (simp add: get_video_metadata_def read_probe_report_def probe_duration_def
      per_stream_bitrates_def format_bit_rate_fallback_def and_then_def
      decimal_builtins_def signed_def unsigned_decimal_def decimal_nat_def digit_value_def)


end
